theory Spec2Isabelle
  imports Complex_Main "HOL-Library.Log_Nat"
begin

section \<open>Shared data model\<close>

text \<open>
  The head node (package \<open>head\<close>, \<open>node/head/execute.go\<close>), the worker's cluster
  management (package \<open>worker\<close>, the second and third parts of \<open>node/head/head.go\<close>)
  and the helpers of the older package \<open>node\<close> are embedded as pure functions. Calls
  that leave the code under study (transport, consensus libraries, roll call, the
  gathering of results) are fields of an environment record: the model is a function
  of whatever those calls return. Logging, metrics and tracing are left out.
\<close>

type_synonym peer_ID = string
  \<comment> \<open>a \<open>peer.ID\<close>, identified with its \<open>String()\<close> form\<close>

text \<open>\<open>codes.Code\<close>: the closed set of response codes.\<close>

datatype code = OK | Error | Invalid | Timeout | NoContent | PartialContent

text \<open>
  Modelled from the spec: \<open>consensus.Type\<close> is declared outside the sources at hand.
  Its zero value stands for "no consensus" (\<open>parseConsensusAlgorithm\<close> returns \<open>0\<close>
  for the empty string and \<open>consensusRequired\<close> tests \<open>c != 0\<close>); \<open>Raft\<close> and
  \<open>PBFT\<close> are its two other values.
\<close>

datatype consensus_Type = NoConsensus | Raft | PBFT

subsection \<open>Errors\<close>

text \<open>
  Go errors as values. The two sentinels of package \<open>blockless\<close>, a leaf error with
  its text (\<open>errors.New\<close>, or \<open>fmt.Errorf\<close> without \<open>%w\<close>), and
  \<open>fmt.Errorf("<prefix>%w", err)\<close>, which wraps \<open>err\<close> behind a prefix.
\<close>

datatype go_error =
    ErrRollCallTimeout
  | ErrExecutionNotEnoughNodes
  | ErrorString string
  | WrapError string go_error

text \<open>
  \<open>errors.Is(err, target)\<close> walks the chain of wrapped errors and compares each link
  with the target. The code only calls it with a sentinel as target.
\<close>

fun errors_Is :: "go_error \<Rightarrow> go_error \<Rightarrow> bool" where
  "errors_Is (WrapError p e) target = (WrapError p e = target \<or> errors_Is e target)"
| "errors_Is e target = (e = target)"

subsection \<open>float64\<close>

text \<open>
  A \<open>float64\<close> (IEEE 754 binary64) is not-a-number, an infinity or a finite value,
  which is a rational. Comparisons follow IEEE 754: every comparison with \<open>NaN\<close> is
  false. Both zeros are \<open>Finite 0\<close>; as a divisor it is the positive zero, the only
  one the code can produce (from a length).
\<close>

datatype float64 = NaN | NegInf | Finite rat | PosInf

fun f64_lt :: "float64 \<Rightarrow> float64 \<Rightarrow> bool" where
  "f64_lt (Finite a) (Finite b) = (a < b)"
| "f64_lt NegInf (Finite b) = True"
| "f64_lt NegInf PosInf = True"
| "f64_lt (Finite a) PosInf = True"
| "f64_lt _ _ = False"

fun f64_eq :: "float64 \<Rightarrow> float64 \<Rightarrow> bool" where
  "f64_eq (Finite a) (Finite b) = (a = b)"
| "f64_eq NegInf NegInf = True"
| "f64_eq PosInf PosInf = True"
| "f64_eq _ _ = False"

definition f64_gt :: "float64 \<Rightarrow> float64 \<Rightarrow> bool" where
  "f64_gt a b = f64_lt b a"

definition f64_le :: "float64 \<Rightarrow> float64 \<Rightarrow> bool" where
  "f64_le a b = (f64_lt a b \<or> f64_eq a b)"

text \<open>
  Rounding to the nearest binary64 value, ties to the even significand. For \<open>x > 0\<close>,
  \<open>floor_log2 x\<close> is the exponent \<open>e\<close> with \<open>2^e \<le> x < 2^(e+1)\<close>. A normal number
  has 53 significant bits, so the values around \<open>x\<close> are the multiples of
  \<open>2^(e-52)\<close>; below \<open>2^(-1022)\<close> the spacing stays \<open>2^(-1074)\<close> (subnormals). The
  multiple \<open>n\<close> nearest to \<open>x\<close> is taken, the even one of two equally near. The result
  overflows to infinity when it reaches \<open>2^1024\<close>, that is when the exponent, one more
  if \<open>n\<close> was rounded up to \<open>2^53\<close>, reaches 1024.
\<close>

definition floor_log2 :: "rat \<Rightarrow> int" where
  "floor_log2 x = (if 1 \<le> x then bitlen \<lfloor>x\<rfloor> - 1 else - bitlen (\<lceil>1 / x\<rceil> - 1))"

definition round_half_even :: "rat \<Rightarrow> int" where
  "round_half_even m =
     (let n = \<lfloor>m\<rfloor>; r = m - of_int n
      in if r < 1 / 2 then n else if 1 / 2 < r then n + 1 else if even n then n else n + 1)"

definition f64_round_pos :: "rat \<Rightarrow> float64" where
  "f64_round_pos x =
     (let e = max (floor_log2 x) (- 1022);
          ulp = 2 powi (e - 52);
          n = round_half_even (x / ulp)
      in if 1024 \<le> (if n = 2 ^ 53 then e + 1 else e) then PosInf
         else Finite (of_int n * ulp))"

fun f64_neg :: "float64 \<Rightarrow> float64" where
  "f64_neg NaN = NaN"
| "f64_neg NegInf = PosInf"
| "f64_neg PosInf = NegInf"
| "f64_neg (Finite y) = Finite (- y)"

definition f64_round :: "rat \<Rightarrow> float64" where
  "f64_round x =
     (if x = 0 then Finite 0
      else if 0 < x then f64_round_pos x
      else f64_neg (f64_round_pos (- x)))"

text \<open>
  Division of two \<open>float64\<close>: the exact quotient, rounded. Division by zero does not
  panic on floats: \<open>0/0\<close> is \<open>NaN\<close> and \<open>x/0\<close> is an infinity for \<open>x \<noteq> 0\<close>.
\<close>

fun f64_div :: "float64 \<Rightarrow> float64 \<Rightarrow> float64" where
  "f64_div (Finite x) (Finite y) =
     (if y = 0 then (if x = 0 then NaN else if 0 < x then PosInf else NegInf)
      else f64_round (x / y))"
| "f64_div (Finite x) PosInf = Finite 0"
| "f64_div (Finite x) NegInf = Finite 0"
| "f64_div PosInf (Finite y) = (if 0 \<le> y then PosInf else NegInf)"
| "f64_div NegInf (Finite y) = (if 0 \<le> y then NegInf else PosInf)"
| "f64_div _ _ = NaN"

text \<open>
  \<open>float64(len(a))\<close>, the conversion of a length, which rounds as well, and
  \<open>float64(len(a)) / float64(len(b))\<close>, the quotient of two lengths.
\<close>

definition f64_of_len :: "nat \<Rightarrow> float64" where
  "f64_of_len n = f64_round (rat_of_nat n)"

definition f64_len_quot :: "nat \<Rightarrow> nat \<Rightarrow> float64" where
  "f64_len_quot a b = f64_div (f64_of_len a) (f64_of_len b)"

subsection \<open>Requests and results\<close>

text \<open>
  \<open>execute.Config\<close> and \<open>execute.Request\<close>, with the fields the code under study
  reads. \<open>Config\<close> has further fields (attributes, timeout) that are only handed on to
  the roll call.
\<close>

record execute_Config =
  NodeCount :: int
  ConsensusAlgorithm :: string
  Threshold :: float64

record execute_Request =
  FunctionID :: string
  Config :: execute_Config

text \<open>\<open>request.Execute\<close>: the request as it arrives at the head, with its topic.\<close>

record request_Execute =
  Request :: execute_Request
  Topic :: string

text \<open>
  \<open>execute.NodeResult\<close>: the code of the execution and its output (standing for
  the runtime output and metadata, which the code under study only passes on).
\<close>

record NodeResult =
  Code :: code
  Output :: string

text \<open>
  \<open>execute.ResultMap\<close>, a Go map from peer to result, as the list of its entries in
  the order in which a \<open>range\<close> statement visits them. Go leaves that order
  unspecified, so it is part of the input. \<open>len\<close> is the length of the list. The
  \<open>nil\<close> map is the empty list.
\<close>

type_synonym ResultMap = "(peer_ID \<times> NodeResult) list"

record Cluster =
  Peers :: "peer_ID list"

text \<open>
  Constants that the code uses and that are declared outside the sources at hand: the
  default threshold of package \<open>head\<close> and the texts of the two sentinel errors. They
  are parameters of the model.
\<close>

record pkg_consts =
  defaultExecutionThreshold :: float64
  ErrRollCallTimeout_text :: string
  ErrExecutionNotEnoughNodes_text :: string

text \<open>\<open>err.Error()\<close>: the text of an error; a wrapping error prints its prefix and
  then the error it wraps.\<close>

fun err_Error :: "pkg_consts \<Rightarrow> go_error \<Rightarrow> string" where
  "err_Error K ErrRollCallTimeout = ErrRollCallTimeout_text K"
| "err_Error K ErrExecutionNotEnoughNodes = ErrExecutionNotEnoughNodes_text K"
| "err_Error K (ErrorString s) = s"
| "err_Error K (WrapError p e) = p @ err_Error K e"

section \<open>Package node: helpers (unnamed part 000)\<close>

text \<open>
  \<open>strings.ToLower\<close>, on the bytes of the string: an ASCII capital is moved to its
  small letter, every other byte is kept. Go lowers non-ASCII runes as well, but no such
  rune lowers to one of the letters of \<open>raft\<close> or \<open>pbft\<close>, so the comparisons of
  \<open>parseConsensusAlgorithm\<close> are decided by the ASCII part alone.
\<close>

definition asciiLower :: "char \<Rightarrow> char" where
  "asciiLower c =
     (if 65 \<le> (of_char c :: nat) \<and> (of_char c :: nat) \<le> 90
      then char_of ((of_char c :: nat) + 32) else c)"

definition strings_ToLower :: "string \<Rightarrow> string" where
  "strings_ToLower s = map asciiLower s"

text \<open>\<open>parseConsensusAlgorithm\<close> (lines 66-82).\<close>

definition parseConsensusAlgorithm :: "string \<Rightarrow> go_error + consensus_Type" where
  "parseConsensusAlgorithm v =
     (if v = [] then Inr NoConsensus
      else let lv = strings_ToLower v in
        if lv = ''raft'' then Inr Raft
        else if lv = ''pbft'' then Inr PBFT
        else Inl (ErrorString (''unknown consensus value ('' @ v @ '')'')))"

text \<open>
  \<open>determineOverallCode\<close> (lines 43-64), on the entries of the map in the order of
  iteration. With a single entry the first loop returns that entry's code.
\<close>

definition determineOverallCode :: "(string \<times> NodeResult) list \<Rightarrow> code" where
  "determineOverallCode results =
     (case results of
        [] \<Rightarrow> NoContent
      | [(peer, res)] \<Rightarrow> Code res
      | _ \<Rightarrow> (if list_ex (\<lambda>(peer, res). Code res = OK) results then OK else Error))"

section \<open>Package head: the orchestrator (execute.go)\<close>

text \<open>\<open>determineThreshold\<close> (lines 207-214).\<close>

definition determineThreshold :: "pkg_consts \<Rightarrow> execute_Request \<Rightarrow> float64" where
  "determineThreshold K req =
     (if f64_gt (Threshold (Config req)) (Finite 0) \<and> f64_le (Threshold (Config req)) (Finite 1)
      then Threshold (Config req)
      else defaultExecutionThreshold K)"

text \<open>\<open>executionResultKey\<close> (lines 216-218).\<close>

definition executionResultKey :: "string \<Rightarrow> peer_ID \<Rightarrow> string" where
  "executionResultKey requestID peer = requestID @ ''/'' @ peer"

text \<open>\<open>consensusRequired\<close> (lines 221-223).\<close>

definition consensusRequired :: "consensus_Type \<Rightarrow> bool" where
  "consensusRequired c = (c \<noteq> NoConsensus)"

text \<open>The head's configuration, with the field \<open>execute\<close> reads.\<close>

record head_Config =
  DefaultConsensus :: consensus_Type

text \<open>
  \<open>response.Execute\<close>, the message that answers the client. \<open>req.Response(code, id)\<close>
  is declared outside the sources at hand; it is taken to build a fresh message with
  that code and request ID and nothing else set.
\<close>

record response_Execute =
  exr_RequestID :: string
  exr_Code :: code
  exr_Results :: ResultMap
  exr_Cluster :: Cluster
  exr_ErrorMessage :: string

text \<open>
  What the head calls outside the code under study. \<open>consensus_Parse\<close> is
  \<open>consensus.Parse\<close>; \<open>Sign\<close> is the signing of the work order's request with the
  head's key; \<open>SendToMany\<close> takes the peers, the request ID and request of the work
  order, and the flag asking to reach all peers. \<open>Valid\<close> is \<open>req.Valid()\<close>,
  \<open>newRequestID\<close> the fresh UUID, \<open>Send\<close> the transport's send of the response.
\<close>

record head_env =
  consensus_Parse :: "string \<Rightarrow> go_error + consensus_Type"
  executeRollCall :: "string \<Rightarrow> execute_Request \<Rightarrow> int \<Rightarrow> consensus_Type \<Rightarrow> string
                        \<Rightarrow> go_error + peer_ID list"
  formCluster :: "string \<Rightarrow> peer_ID list \<Rightarrow> consensus_Type \<Rightarrow> go_error option"
  Sign :: "execute_Request \<Rightarrow> go_error option"
  SendToMany :: "peer_ID list \<Rightarrow> string \<Rightarrow> execute_Request \<Rightarrow> bool \<Rightarrow> go_error option"
  gatherExecutionResultsPBFT :: "string \<Rightarrow> peer_ID list \<Rightarrow> ResultMap"
  gatherExecutionResults :: "string \<Rightarrow> peer_ID list \<Rightarrow> ResultMap"
  Valid :: "request_Execute \<Rightarrow> go_error option"
  newRequestID :: string
  Send :: "peer_ID \<Rightarrow> response_Execute \<Rightarrow> go_error option"

text \<open>
  What \<open>execute\<close> returns, \<open>(codes.Code, execute.ResultMap, execute.Cluster, error)\<close>,
  and whether the deferred \<open>disbandCluster\<close> ran on the way out.
\<close>

record execute_ret =
  ret_code :: code
  ret_results :: ResultMap
  ret_cluster :: Cluster
  ret_err :: "go_error option"
  disbanded :: bool

text \<open>
  The scoring at the end of the non-PBFT path (lines 179-189): \<open>retcode\<close> starts as
  \<open>OK\<close> and is replaced only by the two tests on the ratio.
\<close>

definition score :: "float64 \<Rightarrow> float64 \<Rightarrow> code" where
  "score respondRatio threshold =
     (if f64_eq respondRatio (Finite 0) then NoContent
      else if f64_lt respondRatio threshold then PartialContent
      else OK)"

text \<open>
  The PBFT path's return code (lines 165-170): \<open>OK\<close>, replaced by the code of the
  first result that the loop over the map visits.
\<close>

definition pbft_retcode :: "ResultMap \<Rightarrow> code" where
  "pbft_retcode results = (case results of [] \<Rightarrow> OK | (p, res) # rest \<Rightarrow> Code res)"

text \<open>
  Phase 4 (lines 159-191): the results are gathered and scored, by the discipline of
  the consensus algorithm.
\<close>

definition aggregate ::
  "pkg_consts \<Rightarrow> head_env \<Rightarrow> string \<Rightarrow> execute_Request \<Rightarrow> peer_ID list
     \<Rightarrow> consensus_Type \<Rightarrow> code \<times> ResultMap" where
  "aggregate K env requestID req reportingPeers consensusAlgo =
     (if consensusAlgo = PBFT then
        (let results = gatherExecutionResultsPBFT env requestID reportingPeers
         in (pbft_retcode results, results))
      else
        (let results = gatherExecutionResults env requestID reportingPeers;
             respondRatio = f64_len_quot (length results) (length reportingPeers);
             threshold = determineThreshold K req
         in (score respondRatio threshold, results)))"

text \<open>
  Phase 3 and the return (lines 131-191): the work order is signed for PBFT and sent;
  a failure of either returns \<open>Error\<close> with the cluster and no results.
\<close>

definition dispatch ::
  "pkg_consts \<Rightarrow> head_env \<Rightarrow> string \<Rightarrow> execute_Request \<Rightarrow> peer_ID list
     \<Rightarrow> consensus_Type \<Rightarrow> code \<times> ResultMap \<times> go_error option" where
  "dispatch K env requestID req reportingPeers consensusAlgo =
     (case (if consensusAlgo = PBFT then Sign env req else None) of
        Some err \<Rightarrow>
          (Error, [], Some (WrapError
             (''could not sign execution request (function: '' @ FunctionID req
                @ '', request: '' @ requestID @ ''): '') err))
      | None \<Rightarrow>
          (case SendToMany env reportingPeers requestID req (consensusRequired consensusAlgo) of
             Some err \<Rightarrow>
               (Error, [], Some (WrapError
                  (''could not send execution request to peers (function: '' @ FunctionID req
                     @ '', request: '' @ requestID @ ''): '') err))
           | None \<Rightarrow>
               (let (retcode, results) = aggregate K env requestID req reportingPeers consensusAlgo
                in (retcode, results, None))))"

text \<open>
  Phases 1 to 4 of \<open>execute\<close> (lines 98-191), once the consensus algorithm is fixed.
  The disband is deferred once the cluster has formed, so it runs on every later return.
\<close>

definition execute_phases ::
  "pkg_consts \<Rightarrow> head_env \<Rightarrow> string \<Rightarrow> execute_Request \<Rightarrow> string \<Rightarrow> int
     \<Rightarrow> consensus_Type \<Rightarrow> execute_ret" where
  "execute_phases K env requestID req subgroup nodeCount consensusAlgo =
     (case executeRollCall env requestID req nodeCount consensusAlgo subgroup of
        Inl err \<Rightarrow>
          \<lparr> ret_code = (if errors_Is err ErrRollCallTimeout then Timeout else Error),
            ret_results = [], ret_cluster = \<lparr> Peers = [] \<rparr>,
            ret_err = Some (WrapError
              (''could not roll call peers (request: '' @ requestID @ ''): '') err),
            disbanded = False \<rparr>
      | Inr reportingPeers \<Rightarrow>
          (case (if consensusRequired consensusAlgo
                 then formCluster env requestID reportingPeers consensusAlgo
                 else None) of
             Some err \<Rightarrow>
               \<lparr> ret_code = Error, ret_results = [], ret_cluster = \<lparr> Peers = [] \<rparr>,
                 ret_err = Some (WrapError
                   (''could not form cluster (request: '' @ requestID @ ''): '') err),
                 disbanded = False \<rparr>
           | None \<Rightarrow>
               (let (retcode, results, err) =
                      dispatch K env requestID req reportingPeers consensusAlgo
                in \<lparr> ret_code = retcode, ret_results = results,
                     ret_cluster = \<lparr> Peers = reportingPeers \<rparr>, ret_err = err,
                     disbanded = consensusRequired consensusAlgo \<rparr>)))"

text \<open>
  The start of \<open>execute\<close>: the node count handed to the roll call (lines 78-81) and
  the consensus algorithm in use (lines 86-90). A consensus string that does not parse
  is logged and replaced by the configured default.
\<close>

definition nodeCount :: "execute_Request \<Rightarrow> int" where
  "nodeCount req = (if NodeCount (Config req) \<ge> 1 then NodeCount (Config req) else - 1)"

definition consensusAlgo :: "head_Config \<Rightarrow> head_env \<Rightarrow> execute_Request \<Rightarrow> consensus_Type" where
  "consensusAlgo cfg env req =
     (case consensus_Parse env (ConsensusAlgorithm (Config req)) of
        Inl err \<Rightarrow> DefaultConsensus cfg
      | Inr c \<Rightarrow> c)"

text \<open>\<open>execute\<close> (lines 65-192).\<close>

definition execute ::
  "pkg_consts \<Rightarrow> head_Config \<Rightarrow> head_env \<Rightarrow> string \<Rightarrow> execute_Request \<Rightarrow> string
     \<Rightarrow> execute_ret" where
  "execute K cfg env requestID req subgroup =
     execute_phases K env requestID req subgroup (nodeCount req) (consensusAlgo cfg env req)"

text \<open>
  \<open>processExecute\<close> (lines 23-61): the messages handed to \<open>Send\<close> and the error
  returned. \<open>WithErrorMessage(err)\<close> is taken to set the field to \<open>err.Error()\<close>.
  \<open>errors.Is(nil, target)\<close> is false, so a run without error leaves the field empty.
\<close>

definition processExecute ::
  "pkg_consts \<Rightarrow> head_Config \<Rightarrow> head_env \<Rightarrow> peer_ID \<Rightarrow> request_Execute
     \<Rightarrow> (peer_ID \<times> response_Execute) list \<times> go_error option" where
  "processExecute K cfg env sender req =
     (case Valid env req of
        Some err \<Rightarrow>
          (let res = \<lparr> exr_RequestID = [], exr_Code = Invalid, exr_Results = [],
                       exr_Cluster = \<lparr> Peers = [] \<rparr>, exr_ErrorMessage = err_Error K err \<rparr>
           in ([(sender, res)],
               map_option (WrapError ''could not send response: '') (Send env sender res)))
      | None \<Rightarrow>
          (let requestID = newRequestID env;
               r = execute K cfg env requestID (Request req) (Topic req);
               res = \<lparr> exr_RequestID = requestID, exr_Code = ret_code r,
                       exr_Results = ret_results r, exr_Cluster = ret_cluster r,
                       exr_ErrorMessage =
                         (case ret_err r of
                            None \<Rightarrow> []
                          | Some err \<Rightarrow>
                              (if errors_Is err ErrRollCallTimeout
                                  \<or> errors_Is err ErrExecutionNotEnoughNodes
                               then err_Error K err else [])) \<rparr>
           in ([(sender, res)],
               map_option (WrapError ''could not send response: '') (Send env sender res))))"

subsection \<open>Wait-maps\<close>

text \<open>
  Modelled from the spec: \<open>waitmap.WaitMap\<close> is declared outside the sources at hand.
  \<open>Set(k, v)\<close> publishes \<open>v\<close> under \<open>k\<close>, and the last write wins for new readers.
  The state is the list of the \<open>Set\<close> calls made so far, latest first, so that it
  also tells how often a key was written; \<open>Get\<close> reads the latest write.
\<close>

type_synonym 'v WaitMap = "(string \<times> 'v) list"

definition waitmap_Set :: "'v WaitMap \<Rightarrow> string \<Rightarrow> 'v \<Rightarrow> 'v WaitMap" where
  "waitmap_Set wm k v = (k, v) # wm"

definition waitmap_Get :: "'v WaitMap \<Rightarrow> string \<Rightarrow> 'v option" where
  "waitmap_Get wm k = map_of wm k"

text \<open>\<open>response.WorkOrder\<close>, the message by which a worker reports its result.\<close>

record response_WorkOrder =
  wor_RequestID :: string
  wor_Code :: code
  wor_Result :: NodeResult

text \<open>
  \<open>processWorkOrderResponse\<close> (lines 194-205), on the head's \<open>executeResponses\<close>.
  It always returns \<open>nil\<close>.
\<close>

definition processWorkOrderResponse ::
  "NodeResult WaitMap \<Rightarrow> peer_ID \<Rightarrow> response_WorkOrder \<Rightarrow> NodeResult WaitMap" where
  "processWorkOrderResponse executeResponses sender res =
     (let key = executionResultKey (wor_RequestID res) sender
      in waitmap_Set executeResponses key (wor_Result res))"

section \<open>Package worker: cluster management (head.go, second and third part)\<close>

text \<open>
  A \<open>consensusExecutor\<close>, the handle of a replica: its consensus type, what its
  \<open>Shutdown()\<close> returns when called, and a number that tells handles apart.
\<close>

record consensusExecutor =
  Consensus :: consensus_Type
  Shutdown :: "go_error option"
  handle :: nat

type_synonym registry = "string \<rightharpoonup> consensusExecutor"

record Worker =
  clusters :: registry
  executeResponses :: "NodeResult WaitMap"

text \<open>\<open>request.FormCluster\<close> and its answer \<open>response.FormCluster\<close>.
  \<open>fc.Response(code).WithConsensus(c)\<close> is declared outside the sources at hand; it is
  taken to build the answer with the request's ID, that code and that consensus.\<close>

record request_FormCluster =
  fc_RequestID :: string
  fc_Peers :: "peer_ID list"
  fc_Consensus :: consensus_Type

record response_FormCluster =
  fcr_RequestID :: string
  fcr_Code :: code
  fcr_Consensus :: consensus_Type

definition fc_Response :: "request_FormCluster \<Rightarrow> code \<Rightarrow> response_FormCluster" where
  "fc_Response fc c =
     \<lparr> fcr_RequestID = fc_RequestID fc, fcr_Code = c, fcr_Consensus = fc_Consensus fc \<rparr>"

text \<open>\<open>raft.FSMLogEntry\<close>, with the fields the callbacks read.\<close>

record FSMLogEntry =
  fsm_RequestID :: string
  fsm_Origin :: peer_ID

text \<open>
  What the worker calls outside the code under study: the constructors of the two
  replicas, the transport's send, and \<open>Set\<close> of the registry (\<open>syncmap.Map\<close>, which
  is declared outside the sources at hand).
\<close>

record worker_env =
  raft_New :: "string \<Rightarrow> peer_ID list \<Rightarrow> go_error + consensusExecutor"
  pbft_NewReplica :: "peer_ID list \<Rightarrow> string \<Rightarrow> go_error + consensusExecutor"
  w_Send :: "peer_ID \<Rightarrow> response_FormCluster \<Rightarrow> go_error option"
  clusters_Set :: "registry \<Rightarrow> string \<Rightarrow> consensusExecutor \<Rightarrow> registry"

text \<open>
  The callbacks that cache a committed result (lines 118-121 and 148-150): both write
  under the request ID alone.
\<close>

definition raft_cacheFn :: "Worker \<Rightarrow> FSMLogEntry \<Rightarrow> NodeResult \<Rightarrow> Worker" where
  "raft_cacheFn w req res =
     w\<lparr> executeResponses := waitmap_Set (executeResponses w) (fsm_RequestID req) res \<rparr>"

definition pbft_cacheFn ::
  "request_FormCluster \<Rightarrow> Worker \<Rightarrow> string \<Rightarrow> peer_ID \<Rightarrow> execute_Request \<Rightarrow> NodeResult
     \<Rightarrow> Worker" where
  "pbft_cacheFn fc w requestID origin req res =
     w\<lparr> executeResponses := waitmap_Set (executeResponses w) (fc_RequestID fc) res \<rparr>"

text \<open>
  \<open>createRaftCluster\<close> (lines 91-144) and \<open>createPBFTCluster\<close> (lines 146-181):
  the worker afterwards, the messages handed to \<open>Send\<close>, and the error returned.
  Neither looks the request ID up before it registers the new handle.
\<close>

definition createRaftCluster ::
  "worker_env \<Rightarrow> Worker \<Rightarrow> peer_ID \<Rightarrow> request_FormCluster
     \<Rightarrow> Worker \<times> (peer_ID \<times> response_FormCluster) list \<times> go_error option" where
  "createRaftCluster env w sender fc =
     (case raft_New env (fc_RequestID fc) (fc_Peers fc) of
        Inl err \<Rightarrow> (w, [], Some (WrapError ''could not create raft node: '' err))
      | Inr rh \<Rightarrow>
          (let w' = w\<lparr> clusters := clusters_Set env (clusters w) (fc_RequestID fc) rh \<rparr>;
               msg = fc_Response fc OK
           in (w', [(sender, msg)],
               map_option (WrapError ''could not send cluster confirmation message: '')
                 (w_Send env sender msg))))"

definition createPBFTCluster ::
  "worker_env \<Rightarrow> Worker \<Rightarrow> peer_ID \<Rightarrow> request_FormCluster
     \<Rightarrow> Worker \<times> (peer_ID \<times> response_FormCluster) list \<times> go_error option" where
  "createPBFTCluster env w sender fc =
     (case pbft_NewReplica env (fc_Peers fc) (fc_RequestID fc) of
        Inl err \<Rightarrow> (w, [], Some (WrapError ''could not create PBFT node: '' err))
      | Inr ph \<Rightarrow>
          (let w' = w\<lparr> clusters := clusters_Set env (clusters w) (fc_RequestID fc) ph \<rparr>;
               msg = fc_Response fc OK
           in (w', [(sender, msg)],
               map_option (WrapError ''could not send cluster confirmation message: '')
                 (w_Send env sender msg))))"

text \<open>
  The earlier variant of the two (lines 247-302 and 304-341) keeps the registry in a Go
  map behind \<open>clusterLock\<close>: \<open>w.clusters[fc.RequestID] = rh\<close> replaces whatever the
  map held under that key.
\<close>

definition createRaftCluster_locked ::
  "worker_env \<Rightarrow> Worker \<Rightarrow> peer_ID \<Rightarrow> request_FormCluster
     \<Rightarrow> Worker \<times> (peer_ID \<times> response_FormCluster) list \<times> go_error option" where
  "createRaftCluster_locked env w sender fc =
     (case raft_New env (fc_RequestID fc) (fc_Peers fc) of
        Inl err \<Rightarrow> (w, [], Some (WrapError ''could not create raft node: '' err))
      | Inr rh \<Rightarrow>
          (let w' = w\<lparr> clusters := (clusters w)(fc_RequestID fc \<mapsto> rh) \<rparr>;
               msg = fc_Response fc OK
           in (w', [(sender, msg)],
               map_option (WrapError ''could not send cluster confirmation message: '')
                 (w_Send env sender msg))))"

definition createPBFTCluster_locked ::
  "worker_env \<Rightarrow> Worker \<Rightarrow> peer_ID \<Rightarrow> request_FormCluster
     \<Rightarrow> Worker \<times> (peer_ID \<times> response_FormCluster) list \<times> go_error option" where
  "createPBFTCluster_locked env w sender fc =
     (case pbft_NewReplica env (fc_Peers fc) (fc_RequestID fc) of
        Inl err \<Rightarrow> (w, [], Some (WrapError ''could not create PBFT node: '' err))
      | Inr ph \<Rightarrow>
          (let w' = w\<lparr> clusters := (clusters w)(fc_RequestID fc \<mapsto> ph) \<rparr>;
               msg = fc_Response fc OK
           in (w', [(sender, msg)],
               map_option (WrapError ''could not send cluster confirmation message: '')
                 (w_Send env sender msg))))"

text \<open>
  \<open>leaveCluster\<close> (lines 183-215, and 343-376 for the variant with the locked map):
  the worker afterwards and the error returned. The two variants differ only in how
  the map is guarded; \<open>Get\<close> and \<open>Delete\<close> of the registry are the lookup and the
  removal of the key. The wait on \<open>executeResponses\<close> in between is bounded by the
  timeout and its outcome is only logged, so it does not show in the result.
\<close>

definition leaveCluster :: "Worker \<Rightarrow> string \<Rightarrow> Worker \<times> go_error option" where
  "leaveCluster w requestID =
     (case clusters w requestID of
        None \<Rightarrow> (w, Some (ErrorString ''no cluster with that ID''))
      | Some cluster \<Rightarrow>
          (case Shutdown cluster of
             Some err \<Rightarrow>
               (w, Some (WrapError
                  (''could not leave cluster (request: '' @ requestID @ ''): '') err))
           | None \<Rightarrow> (w\<lparr> clusters := (clusters w)(requestID := None) \<rparr>, None)))"

section \<open>Executions and sample inputs\<close>

text \<open>
  An execution reaches the aggregation phase with the peers \<open>peers\<close>: the roll call
  returned them, the cluster formed where one is required, and the work order was signed
  (for PBFT) and sent.
\<close>

definition reaches_aggregation ::
  "head_Config \<Rightarrow> head_env \<Rightarrow> string \<Rightarrow> execute_Request \<Rightarrow> string \<Rightarrow> peer_ID list \<Rightarrow> bool" where
  "reaches_aggregation cfg env requestID req subgroup peers =
     (let c = consensusAlgo cfg env req in
        executeRollCall env requestID req (nodeCount req) c subgroup = Inr peers
        \<and> (if consensusRequired c then formCluster env requestID peers c = None else True)
        \<and> (if c = PBFT then Sign env req = None else True)
        \<and> SendToMany env peers requestID req (consensusRequired c) = None)"

text \<open>
  Sample inputs for the concrete runs below: an environment in which the given peers
  answer the roll call, nothing fails, and the gathering returns the given results; a
  request with a consensus string and a threshold; and values for the constants.
\<close>

definition fixed_env :: "peer_ID list \<Rightarrow> ResultMap \<Rightarrow> head_env" where
  "fixed_env peers results =
     \<lparr> consensus_Parse = parseConsensusAlgorithm,
       executeRollCall = (\<lambda>requestID req n c subgroup. Inr peers),
       formCluster = (\<lambda>requestID ps c. None),
       Sign = (\<lambda>req. None),
       SendToMany = (\<lambda>ps requestID req reachAll. None),
       gatherExecutionResultsPBFT = (\<lambda>requestID ps. results),
       gatherExecutionResults = (\<lambda>requestID ps. results),
       Valid = (\<lambda>req. None),
       newRequestID = ''req-1'',
       Send = (\<lambda>peer res. None) \<rparr>"

definition request_of :: "string \<Rightarrow> float64 \<Rightarrow> execute_Request" where
  "request_of algo th =
     \<lparr> FunctionID = ''fn'',
       Config = \<lparr> NodeCount = 0, ConsensusAlgorithm = algo, Threshold = th \<rparr> \<rparr>"

definition consts_half :: pkg_consts where
  "consts_half =
     \<lparr> defaultExecutionThreshold = Finite (1 / 2),
       ErrRollCallTimeout_text = ''roll call timed out'',
       ErrExecutionNotEnoughNodes_text = ''not enough nodes'' \<rparr>"

text \<open>
  A key has the form \<open>request_id + "/" + peer_id\<close> for the request \<open>requestID\<close>: it
  starts with the request ID and a slash, and what follows is the peer.
\<close>

definition is_result_key :: "string \<Rightarrow> string \<Rightarrow> bool" where
  "is_result_key requestID k = (take (length requestID + 1) k = requestID @ ''/'')"

text \<open>
  Modelled from the spec: \<open>Set\<close> of the cluster registry as the spec words it, "Set is
  rejected if the key already exists". It is one possible value of the parameter
  \<open>clusters_Set\<close>, used in the sample worker environment, in which both constructors
  return the given handle and the send succeeds.
\<close>

definition syncmap_Set_once :: "registry \<Rightarrow> string \<Rightarrow> consensusExecutor \<Rightarrow> registry" where
  "syncmap_Set_once m k v = (case m k of None \<Rightarrow> m(k \<mapsto> v) | Some old \<Rightarrow> m)"

definition worker_fixed_env :: "consensusExecutor \<Rightarrow> worker_env" where
  "worker_fixed_env h =
     \<lparr> raft_New = (\<lambda>requestID peers. Inr h),
       pbft_NewReplica = (\<lambda>peers requestID. Inr h),
       w_Send = (\<lambda>peer msg. None),
       clusters_Set = syncmap_Set_once \<rparr>"

section \<open>Properties\<close>

subsection \<open>Auxiliary facts\<close>

lemma f64_gt_zero_le_one:
  "(f64_gt x (Finite 0) \<and> f64_le x (Finite 1)) = (\<exists>t. x = Finite t \<and> 0 < t \<and> t \<le> 1)"
  by (cases x) (auto simp: f64_gt_def f64_le_def)

text \<open>
  Facts about the rounding: the exponent found is not above the number, a length below
  \<open>2^53\<close> converts exactly, and a quotient of such lengths rounds to zero only if it is
  zero.
\<close>

lemma floor_log2_lower:
  assumes "0 < x"
  shows "2 powi (floor_log2 x) \<le> x"
proof (cases "1 \<le> x")
  case True
  then have n: "0 < \<lfloor>x\<rfloor>" by simp
  have b: "1 \<le> bitlen \<lfloor>x\<rfloor>"
    using n bitlen_eq_zero_iff[of "\<lfloor>x\<rfloor>"] bitlen_nonneg[of "\<lfloor>x\<rfloor>"] by linarith
  have "(2::int) ^ nat (bitlen \<lfloor>x\<rfloor> - 1) \<le> \<lfloor>x\<rfloor>"
    using bitlen_bounds[OF n] by simp
  then have "rat_of_int (2 ^ nat (bitlen \<lfloor>x\<rfloor> - 1)) \<le> rat_of_int \<lfloor>x\<rfloor>"
    by (simp only: of_int_le_iff)
  also have "\<dots> \<le> x" by simp
  finally have "(2::rat) ^ nat (bitlen \<lfloor>x\<rfloor> - 1) \<le> x" by simp
  with True b show ?thesis
    by (simp add: floor_log2_def power_int_def)
next
  case False
  with assms have x: "0 < x" "x < 1" by simp_all
  then have "1 < 1 / x" by simp
  then have c: "0 < \<lceil>1 / x\<rceil> - 1"
    by (simp add: less_ceiling_iff)
  let ?k = "bitlen (\<lceil>1 / x\<rceil> - 1)"
  have k: "1 \<le> ?k"
    using c bitlen_eq_zero_iff[of "\<lceil>1 / x\<rceil> - 1"] bitlen_nonneg[of "\<lceil>1 / x\<rceil> - 1"]
    by linarith
  have "\<lceil>1 / x\<rceil> - 1 < 2 ^ nat ?k"
    using bitlen_bounds[OF c] by simp
  then have "\<lceil>1 / x\<rceil> \<le> 2 ^ nat ?k" by simp
  then have "rat_of_int \<lceil>1 / x\<rceil> \<le> 2 ^ nat ?k" by simp
  moreover have "1 / x \<le> rat_of_int \<lceil>1 / x\<rceil>" by (rule le_of_int_ceiling)
  ultimately have "1 / x \<le> 2 ^ nat ?k" by (rule order_trans[rotated])
  then have "1 / 2 ^ nat ?k \<le> x"
    using x(1) by (simp add: field_simps)
  with False k show ?thesis
    by (simp add: floor_log2_def power_int_def field_simps)
qed

lemma round_half_even_of_int: "round_half_even (rat_of_int k) = k"
  by (simp add: round_half_even_def)

lemma round_half_even_ge_one:
  assumes "1 \<le> m"
  shows "1 \<le> round_half_even m"
proof -
  have "1 \<le> \<lfloor>m\<rfloor>" using assms by simp
  then show ?thesis by (simp add: round_half_even_def Let_def)
qed

lemma f64_round_pos_nonzero:
  assumes "0 < x" and "2 powi (- 1074) \<le> x"
  shows "f64_round x \<noteq> Finite 0"
proof -
  define e where "e = max (floor_log2 x) (- 1022)"
  define ulp :: rat where "ulp = 2 powi (e - 52)"
  have ulp_pos: "0 < ulp" by (simp add: ulp_def)
  have "ulp \<le> x"
  proof (cases "- 1022 \<le> floor_log2 x")
    case True
    then have "e = floor_log2 x" by (simp add: e_def)
    then have "ulp \<le> 2 powi (floor_log2 x)"
      unfolding ulp_def by (intro power_int_increasing) simp_all
    then show ?thesis using floor_log2_lower[OF assms(1)] by linarith
  next
    case False
    then have "e = - 1022" by (simp add: e_def)
    then have "ulp = 2 powi (- 1074)" by (simp add: ulp_def)
    then show ?thesis using assms(2) by simp
  qed
  then have "1 \<le> x / ulp" using ulp_pos by (simp add: field_simps)
  then have "1 \<le> round_half_even (x / ulp)" by (rule round_half_even_ge_one)
  then have nz: "rat_of_int (round_half_even (x / ulp)) * ulp \<noteq> 0"
    using ulp_pos by simp
  have "f64_round x =
          (if 1024 \<le> (if round_half_even (x / ulp) = 2 ^ 53 then e + 1 else e) then PosInf
           else Finite (rat_of_int (round_half_even (x / ulp)) * ulp))"
    using assms(1) by (auto simp: f64_round_def f64_round_pos_def Let_def e_def ulp_def)
  then show ?thesis
    using nz by (simp split: if_splits)
qed

lemma f64_of_len_exact:
  assumes "n < 2 ^ 53"
  shows "f64_of_len n = Finite (rat_of_nat n)"
proof (cases "n = 0")
  case True
  then show ?thesis by (simp add: f64_of_len_def f64_round_def)
next
  case False
  let ?x = "rat_of_nat n"
  let ?b = "bitlen (int n)"
  have x: "1 \<le> ?x" "0 < ?x" using False by simp_all
  have fl: "\<lfloor>?x\<rfloor> = int n" by simp
  have b1: "1 \<le> ?b"
    using False bitlen_eq_zero_iff[of "int n"] bitlen_nonneg[of "int n"] by simp
  have b2: "?b \<le> 53"
    using assms less_power_nat_iff_bitlen[of n 53] by simp
  have e: "max (floor_log2 ?x) (- 1022) = ?b - 1"
    using x b1 by (simp add: floor_log2_def fl)
  define k where "k = nat (53 - ?b)"
  have ulp: "(2::rat) powi (?b - 53) = 1 / 2 ^ k"
    using b2 b1 by (simp add: power_int_def k_def field_simps)
  have m: "?x / (2 powi (?b - 53)) = rat_of_int (int n * 2 ^ k)"
    by (simp add: ulp)
  have r: "round_half_even (?x / (2 powi (?b - 53))) = int n * 2 ^ k"
    unfolding m by (rule round_half_even_of_int)
  have v: "rat_of_int (int n * 2 ^ k) * (2 powi (?b - 53)) = ?x"
    by (simp add: ulp)
  have "f64_round_pos ?x =
          (if 1024 \<le> (if int n * 2 ^ k = 2 ^ 53 then ?b - 1 + 1 else ?b - 1) then PosInf
           else Finite (rat_of_int (int n * 2 ^ k) * (2 powi (?b - 53))))"
    by (simp add: f64_round_pos_def Let_def e r)
  also have "\<dots> = Finite ?x"
    using b2 by (simp only: v) simp
  finally show ?thesis
    using x by (simp add: f64_of_len_def f64_round_def)
qed

lemma f64_len_quot_zero:
  assumes "b \<noteq> 0" and "a < 2 ^ 53" and "b < 2 ^ 53"
  shows "f64_eq (f64_len_quot a b) (Finite 0) = (a = 0)"
proof (cases "a = 0")
  case True
  with assms show ?thesis
    by (simp add: f64_len_quot_def f64_of_len_exact f64_round_def)
next
  case False
  let ?x = "rat_of_nat a / rat_of_nat b"
  have pos: "0 < ?x" using False assms(1) by simp
  have "rat_of_nat b \<le> 2 ^ 53"
    using assms(3) by (metis less_imp_le of_nat_le_iff of_nat_numeral of_nat_power)
  then have "1 / 2 ^ 53 \<le> 1 / rat_of_nat b"
    using assms(1) by (simp add: field_simps)
  also have "\<dots> \<le> ?x"
    using False assms(1) by (simp add: field_simps)
  finally have "1 / 2 ^ 53 \<le> ?x" .
  moreover have "(2::rat) powi (- 1074) \<le> 1 / 2 ^ 53"
    by (simp add: power_int_def field_simps)
  ultimately have "2 powi (- 1074) \<le> ?x" by linarith
  then have "f64_round ?x \<noteq> Finite 0"
    using pos by (rule f64_round_pos_nonzero[rotated])
  then show ?thesis
    using False assms
    by (cases "f64_round ?x") (simp_all add: f64_len_quot_def f64_of_len_exact)
qed

text \<open>Quotients of small lengths, computed.\<close>

lemma f64_len_quot_1_1: "f64_len_quot 1 1 = Finite 1"
  by code_simp

lemma f64_len_quot_2_2: "f64_len_quot 2 2 = Finite 1"
  by code_simp

lemma f64_len_quot_Suc_1_1: "f64_len_quot (Suc 0) (Suc 0) = Finite 1"
  using f64_len_quot_1_1 by simp

lemma f64_len_quot_Suc_2_2: "f64_len_quot (Suc (Suc 0)) (Suc (Suc 0)) = Finite 1"
  using f64_len_quot_2_2 by (simp add: numeral_2_eq_2)

lemma f64_len_quot_1_2: "f64_len_quot 1 2 = Finite (1 / 2)"
  by code_simp

lemma f64_len_quot_1_3: "f64_len_quot 1 3 = Finite (6004799503160661 / 18014398509481984)"
  by code_simp

lemma f64_len_quot_4_5: "f64_len_quot 4 5 = Finite (3602879701896397 / 4503599627370496)"
  by code_simp

lemma execute_aggregates:
  assumes "reaches_aggregation cfg env requestID req subgroup peers"
  shows "execute K cfg env requestID req subgroup =
           \<lparr> ret_code = fst (aggregate K env requestID req peers (consensusAlgo cfg env req)),
             ret_results = snd (aggregate K env requestID req peers (consensusAlgo cfg env req)),
             ret_cluster = \<lparr> Peers = peers \<rparr>, ret_err = None,
             disbanded = consensusRequired (consensusAlgo cfg env req) \<rparr>"
  using assms
  by (auto simp: reaches_aggregation_def execute_def execute_phases_def dispatch_def Let_def
           split: prod.splits if_splits)

lemma reaches_fixed:
  "reaches_aggregation cfg (fixed_env peers results) requestID req subgroup peers"
  by (simp add: reaches_aggregation_def fixed_env_def Let_def)

lemma parse_pbft: "parseConsensusAlgorithm ''pbft'' = Inr PBFT"
  by (simp add: parseConsensusAlgorithm_def strings_ToLower_def asciiLower_def)

lemma algo_fixed_pbft:
  "consensusAlgo cfg (fixed_env peers results) (request_of ''pbft'' th) = PBFT"
  by (simp add: consensusAlgo_def fixed_env_def request_of_def parse_pbft)

lemma parse_empty: "parseConsensusAlgorithm [] = Inr NoConsensus"
  by (simp add: parseConsensusAlgorithm_def)

lemma algo_fixed_none:
  "consensusAlgo cfg (fixed_env peers results) (request_of [] th) = NoConsensus"
  by (simp add: consensusAlgo_def fixed_env_def request_of_def parse_empty)

lemma determineThreshold_le_one:
  assumes "\<not> f64_lt (Finite 1) (defaultExecutionThreshold K)"
  shows "\<not> f64_lt (Finite 1) (determineThreshold K req)"
  using assms by (auto simp: determineThreshold_def f64_gt_zero_le_one)

text \<open>
  \<open>determineOverallCode\<close> of package \<open>node\<close> scores by the codes of the results: a
  single result gives its own code. \<open>execute\<close> of package \<open>head\<close> does not call it.
\<close>

lemma determineOverallCode_empty: "determineOverallCode [] = NoContent"
  by (simp add: determineOverallCode_def)

lemma determineOverallCode_single: "determineOverallCode [(p, r)] = Code r"
  by (simp add: determineOverallCode_def)

lemma determineOverallCode_many:
  "determineOverallCode (a # b # rest) =
     (if list_ex (\<lambda>(peer, res). Code res = OK) (a # b # rest) then OK else Error)"
  by (cases a) (simp add: determineOverallCode_def)

lemma strings_ToLower_Nil: "(strings_ToLower v = []) = (v = [])"
  by (simp add: strings_ToLower_def)

lemma parse_Inr_iff:
  "(parseConsensusAlgorithm v = Inr c) =
     ((v = [] \<and> c = NoConsensus) \<or> (strings_ToLower v = ''raft'' \<and> c = Raft)
        \<or> (strings_ToLower v = ''pbft'' \<and> c = PBFT))"
  by (auto simp: parseConsensusAlgorithm_def Let_def strings_ToLower_def)

lemma parse_Inl_iff:
  "(parseConsensusAlgorithm v = Inl e) =
     (v \<noteq> [] \<and> strings_ToLower v \<noteq> ''raft'' \<and> strings_ToLower v \<noteq> ''pbft''
        \<and> e = ErrorString (''unknown consensus value ('' @ v @ '')''))"
  by (auto simp: parseConsensusAlgorithm_def Let_def)

lemma lower_RaFt: "strings_ToLower ''RaFt'' = ''raft''"
  by code_simp

lemma lower_PBFT: "strings_ToLower ''PBFT'' = ''pbft''"
  by code_simp

lemma lower_paxos: "strings_ToLower ''paxos'' = ''paxos''"
  by (simp add: strings_ToLower_def asciiLower_def)

lemma is_result_key_iff:
  "is_result_key requestID k = (\<exists>peer. k = executionResultKey requestID peer)"
proof
  assume "is_result_key requestID k"
  then have "k = requestID @ ''/'' @ drop (length requestID + 1) k"
    unfolding is_result_key_def by (metis append.assoc append_take_drop_id)
  then show "\<exists>peer. k = executionResultKey requestID peer"
    unfolding executionResultKey_def by blast
next
  assume "\<exists>peer. k = executionResultKey requestID peer"
  then show "is_result_key requestID k"
    by (auto simp: is_result_key_def executionResultKey_def)
qed

lemma execute_err_wrapped:
  assumes "ret_err (execute K cfg env requestID req subgroup) = Some e"
  shows "\<exists>p e'. e = WrapError p e' \<and> p \<noteq> []"
  using assms
  by (auto simp: execute_def execute_phases_def dispatch_def Let_def
           split: sum.splits option.splits prod.splits if_splits)

subsection \<open>PBFT executions\<close>

text \<open>
  C10. A PBFT execution that reaches the aggregation phase and gathers no result at all
  returns code \<open>OK\<close>, an empty result map and no error: the return code starts as
  \<open>OK\<close> and the loop over the results never runs.
\<close>

theorem execute_PBFT_no_result:
  assumes "reaches_aggregation cfg env requestID req subgroup peers"
    and "consensusAlgo cfg env req = PBFT"
    and "gatherExecutionResultsPBFT env requestID peers = []"
  shows "ret_code (execute K cfg env requestID req subgroup) = OK
       \<and> ret_results (execute K cfg env requestID req subgroup) = []
       \<and> ret_err (execute K cfg env requestID req subgroup) = None"
  using assms(2,3) by (simp add: execute_aggregates[OF assms(1)] aggregate_def pbft_retcode_def)

theorem execute_PBFT_no_result_witness:
  "ret_code (execute consts_half \<lparr> DefaultConsensus = NoConsensus \<rparr> (fixed_env [''p1'', ''p2''] [])
      ''req-1'' (request_of ''pbft'' (Finite 0)) ''topic'') = OK
   \<and> ret_results (execute consts_half \<lparr> DefaultConsensus = NoConsensus \<rparr> (fixed_env [''p1'', ''p2''] [])
      ''req-1'' (request_of ''pbft'' (Finite 0)) ''topic'') = []
   \<and> ret_err (execute consts_half \<lparr> DefaultConsensus = NoConsensus \<rparr> (fixed_env [''p1'', ''p2''] [])
      ''req-1'' (request_of ''pbft'' (Finite 0)) ''topic'') = None"
proof -
  have g: "gatherExecutionResultsPBFT (fixed_env [''p1'', ''p2''] []) ''req-1'' [''p1'', ''p2''] = []"
    by (simp add: fixed_env_def)
  show ?thesis
    using execute_PBFT_no_result[OF reaches_fixed algo_fixed_pbft g] .
qed

text \<open>
  C7. A PBFT execution that reaches the aggregation phase and gathers at least one
  result, all entries of the gathered map holding the one agreed result \<open>r\<close> (any
  replica may report it), returns the code of \<open>r\<close> and no error, and the result map
  it returns is the gathered one, which contains \<open>r\<close>.
\<close>

theorem execute_PBFT_single_result:
  assumes "reaches_aggregation cfg env requestID req subgroup peers"
    and "consensusAlgo cfg env req = PBFT"
    and "gatherExecutionResultsPBFT env requestID peers = results"
    and "results \<noteq> []"
    and "\<forall>e \<in> set results. snd e = r"
  shows "ret_code (execute K cfg env requestID req subgroup) = Code r
       \<and> ret_results (execute K cfg env requestID req subgroup) = results
       \<and> r \<in> snd ` set (ret_results (execute K cfg env requestID req subgroup))
       \<and> ret_err (execute K cfg env requestID req subgroup) = None"
proof -
  obtain p r' rest where res: "results = (p, r') # rest"
    using assms(4) by (cases results) auto
  with assms(5) have "r' = r" by simp
  with res assms(2,3) show ?thesis
    by (simp add: execute_aggregates[OF assms(1)] aggregate_def pbft_retcode_def)
qed

theorem execute_PBFT_single_result_witness:
  "ret_code (execute consts_half \<lparr> DefaultConsensus = NoConsensus \<rparr>
      (fixed_env [''p1'', ''p2'', ''p3'', ''p4''] [(''p3'', \<lparr> Code = Error, Output = ''x'' \<rparr>)])
      ''req-1'' (request_of ''pbft'' (Finite 0)) ''topic'') = Error
   \<and> ret_results (execute consts_half \<lparr> DefaultConsensus = NoConsensus \<rparr>
      (fixed_env [''p1'', ''p2'', ''p3'', ''p4''] [(''p3'', \<lparr> Code = Error, Output = ''x'' \<rparr>)])
      ''req-1'' (request_of ''pbft'' (Finite 0)) ''topic'') = [(''p3'', \<lparr> Code = Error, Output = ''x'' \<rparr>)]"
proof -
  let ?rs = "[(''p3'', \<lparr> Code = Error, Output = ''x'' \<rparr>)]"
  let ?ps = "[''p1'', ''p2'', ''p3'', ''p4'']"
  have g: "gatherExecutionResultsPBFT (fixed_env ?ps ?rs) ''req-1'' ?ps = ?rs"
    by (simp add: fixed_env_def)
  have ne: "?rs \<noteq> []" by simp
  have al: "\<forall>e \<in> set ?rs. snd e = \<lparr> Code = Error, Output = ''x'' \<rparr>" by simp
  show ?thesis
    using execute_PBFT_single_result[OF reaches_fixed algo_fixed_pbft g ne al] by simp
qed

subsection \<open>The threshold\<close>

text \<open>
  C8. The effective threshold is the configured one when that is a finite value in
  \<open>(0, 1]\<close>, and the default threshold otherwise: when the configured value is \<open>0\<close>
  (also the value of an unset field), negative, greater than \<open>1\<close>, infinite or not a
  number.
\<close>

theorem determineThreshold_effective:
  "determineThreshold K req =
     (case Threshold (Config req) of
        Finite t \<Rightarrow> if 0 < t \<and> t \<le> 1 then Finite t else defaultExecutionThreshold K
      | _ \<Rightarrow> defaultExecutionThreshold K)"
  by (auto simp: determineThreshold_def f64_gt_zero_le_one split: float64.splits)

theorem determineThreshold_effective_witness:
  "determineThreshold consts_half (request_of '''' (Finite (3 / 4))) = Finite (3 / 4)
   \<and> determineThreshold consts_half (request_of '''' (Finite 1)) = Finite 1
   \<and> determineThreshold consts_half (request_of '''' (Finite 0)) = Finite (1 / 2)
   \<and> determineThreshold consts_half (request_of '''' (Finite (- 1))) = Finite (1 / 2)
   \<and> determineThreshold consts_half (request_of '''' (Finite (3 / 2))) = Finite (1 / 2)
   \<and> determineThreshold consts_half (request_of '''' NaN) = Finite (1 / 2)"
  using determineThreshold_effective[of consts_half "request_of '''' (Finite (3 / 4))"]
    determineThreshold_effective[of consts_half "request_of '''' (Finite 1)"]
    determineThreshold_effective[of consts_half "request_of '''' (Finite 0)"]
    determineThreshold_effective[of consts_half "request_of '''' (Finite (- 1))"]
    determineThreshold_effective[of consts_half "request_of '''' (Finite (3 / 2))"]
    determineThreshold_effective[of consts_half "request_of '''' NaN"]
  by (simp add: request_of_def consts_half_def)

subsection \<open>Scoring without PBFT\<close>

text \<open>
  C1, as the code has it. A non-PBFT execution that reaches the aggregation phase with
  a non-empty list of peers returns the gathered results and no error, and its code is
  \<open>NoContent\<close> if no result arrived, \<open>PartialContent\<close> if the ratio of results to
  peers, computed as the code computes it, by \<open>float64\<close> division with rounding, is
  below the effective threshold, and \<open>OK\<close> in every other case, whatever codes the
  peers reported: the codes of the results are not read. Both lengths are below
  \<open>2^53\<close>, as the lengths of a Go slice and map are.
\<close>

theorem execute_scoring:
  assumes "reaches_aggregation cfg env requestID req subgroup peers"
    and "consensusAlgo cfg env req \<noteq> PBFT"
    and "gatherExecutionResults env requestID peers = results"
    and "peers \<noteq> []"
    and "length results < 2 ^ 53"
    and "length peers < 2 ^ 53"
  shows "ret_code (execute K cfg env requestID req subgroup) =
           (if results = [] then NoContent
            else if f64_lt (f64_len_quot (length results) (length peers))
                      (determineThreshold K req)
                 then PartialContent
            else OK)
       \<and> ret_results (execute K cfg env requestID req subgroup) = results
       \<and> ret_err (execute K cfg env requestID req subgroup) = None"
proof -
  have "length peers \<noteq> 0" using assms(4) by simp
  then have "f64_eq (f64_len_quot (length results) (length peers)) (Finite 0) = (results = [])"
    using f64_len_quot_zero[OF _ assms(5,6)] by simp
  then show ?thesis
    using assms(2,3)
    by (simp add: execute_aggregates[OF assms(1)] aggregate_def score_def Let_def)
qed

theorem execute_scoring_witness:
  "ret_code (execute consts_half \<lparr> DefaultConsensus = NoConsensus \<rparr>
      (fixed_env [''p1'', ''p2'', ''p3''] [(''p2'', \<lparr> Code = OK, Output = ''hi'' \<rparr>)])
      ''req-1'' (request_of [] (Finite (1 / 2))) ''topic'') = PartialContent
   \<and> ret_results (execute consts_half \<lparr> DefaultConsensus = NoConsensus \<rparr>
      (fixed_env [''p1'', ''p2'', ''p3''] [(''p2'', \<lparr> Code = OK, Output = ''hi'' \<rparr>)])
      ''req-1'' (request_of [] (Finite (1 / 2))) ''topic'') = [(''p2'', \<lparr> Code = OK, Output = ''hi'' \<rparr>)]
   \<and> ret_code (execute consts_half \<lparr> DefaultConsensus = NoConsensus \<rparr>
      (fixed_env [''p1'', ''p2'', ''p3''] [])
      ''req-1'' (request_of [] (Finite (1 / 2))) ''topic'') = NoContent
   \<and> ret_code (execute consts_half \<lparr> DefaultConsensus = NoConsensus \<rparr>
      (fixed_env [''p1'', ''p2''] [(''p2'', \<lparr> Code = Error, Output = ''boom'' \<rparr>)])
      ''req-1'' (request_of [] (Finite (1 / 2))) ''topic'') = OK
   \<and> ret_code (execute consts_half \<lparr> DefaultConsensus = NoConsensus \<rparr>
      (fixed_env [''p1'', ''p2'', ''p3'', ''p4'', ''p5'']
         [(''p1'', \<lparr> Code = OK, Output = ''hi'' \<rparr>), (''p2'', \<lparr> Code = OK, Output = ''hi'' \<rparr>),
          (''p3'', \<lparr> Code = OK, Output = ''hi'' \<rparr>), (''p4'', \<lparr> Code = OK, Output = ''hi'' \<rparr>)])
      ''req-1'' (request_of [] (Finite (3602879701896397 / 4503599627370496))) ''topic'') = OK"
proof -
  let ?cfg = "\<lparr> DefaultConsensus = NoConsensus \<rparr>"
  let ?req = "request_of [] (Finite (1 / 2))"
  let ?req8 = "request_of [] (Finite (3602879701896397 / 4503599627370496))"
  let ?p3 = "[''p1'', ''p2'', ''p3'']"
  let ?p2 = "[''p1'', ''p2'']"
  let ?p5 = "[''p1'', ''p2'', ''p3'', ''p4'', ''p5'']"
  let ?r1 = "[(''p2'', \<lparr> Code = OK, Output = ''hi'' \<rparr>)]"
  let ?r3 = "[(''p2'', \<lparr> Code = Error, Output = ''boom'' \<rparr>)]"
  let ?r4 = "[(''p1'', \<lparr> Code = OK, Output = ''hi'' \<rparr>), (''p2'', \<lparr> Code = OK, Output = ''hi'' \<rparr>),
              (''p3'', \<lparr> Code = OK, Output = ''hi'' \<rparr>), (''p4'', \<lparr> Code = OK, Output = ''hi'' \<rparr>)]"
  have a: "\<And>ps rs. consensusAlgo ?cfg (fixed_env ps rs) ?req \<noteq> PBFT"
    and a8: "\<And>ps rs. consensusAlgo ?cfg (fixed_env ps rs) ?req8 \<noteq> PBFT"
    by (simp_all add: algo_fixed_none)
  have g1: "gatherExecutionResults (fixed_env ?p3 ?r1) ''req-1'' ?p3 = ?r1"
    and g2: "gatherExecutionResults (fixed_env ?p3 []) ''req-1'' ?p3 = []"
    and g3: "gatherExecutionResults (fixed_env ?p2 ?r3) ''req-1'' ?p2 = ?r3"
    and g4: "gatherExecutionResults (fixed_env ?p5 ?r4) ''req-1'' ?p5 = ?r4"
    by (simp_all add: fixed_env_def)
  have t: "determineThreshold consts_half ?req = Finite (1 / 2)"
    and t8: "determineThreshold consts_half ?req8 = Finite (3602879701896397 / 4503599627370496)"
    by (simp_all add: determineThreshold_def request_of_def f64_gt_def f64_le_def)
  have n3: "?p3 \<noteq> []" and n2: "?p2 \<noteq> []" and n5: "?p5 \<noteq> []" by simp_all
  have b0: "length ([] :: ResultMap) < 2 ^ 53" and b1: "length ?r1 < 2 ^ 53"
    and b1': "length ?r3 < 2 ^ 53" and b4: "length ?r4 < 2 ^ 53"
    and c2: "length ?p2 < 2 ^ 53" and c3: "length ?p3 < 2 ^ 53" and c5: "length ?p5 < 2 ^ 53"
    by simp_all
  have l1: "length ?r1 = 1" and l1': "length ?r3 = 1" and l4: "length ?r4 = 4"
    and m2: "length ?p2 = 2" and m3: "length ?p3 = 3" and m5: "length ?p5 = 5"
    by simp_all
  note s1 = execute_scoring[OF reaches_fixed a g1 n3 b1 c3,
      where K = consts_half and subgroup = "''topic''", unfolded l1 m3 f64_len_quot_1_3 t]
  note s2 = execute_scoring[OF reaches_fixed a g2 n3 b0 c3,
      where K = consts_half and subgroup = "''topic''"]
  note s3 = execute_scoring[OF reaches_fixed a g3 n2 b1' c2,
      where K = consts_half and subgroup = "''topic''", unfolded l1' m2 f64_len_quot_1_2 t]
  note s4 = execute_scoring[OF reaches_fixed a8 g4 n5 b4 c5,
      where K = consts_half and subgroup = "''topic''", unfolded l4 m5 f64_len_quot_4_5 t8]
  show ?thesis
    using s1 s2 s3 s4 by simp
qed

text \<open>
  C1 as stated fails: two of two peers reply, each with code \<open>Error\<close>, the threshold
  is one half, and the overall code is \<open>OK\<close>, not \<open>Error\<close>.
\<close>

theorem execute_all_failed_counterexample:
  "ret_code (execute consts_half \<lparr> DefaultConsensus = NoConsensus \<rparr>
      (fixed_env [''p1'', ''p2''] [(''p1'', \<lparr> Code = Error, Output = ''boom'' \<rparr>), (''p2'', \<lparr> Code = Error, Output = ''boom'' \<rparr>)])
      ''req-1'' (request_of [] (Finite (1 / 2))) ''topic'') = OK"
  by (simp add: execute_def execute_phases_def dispatch_def aggregate_def score_def
        f64_len_quot_Suc_1_1 f64_len_quot_Suc_2_2 determineThreshold_def f64_gt_def f64_le_def nodeCount_def
        consensusAlgo_def fixed_env_def request_of_def consts_half_def consensusRequired_def
        parseConsensusAlgorithm_def Let_def)

text \<open>
  C2, as the code has it. With a single selected peer that reports a result, a non-PBFT
  execution returns code \<open>OK\<close>, whatever code the peer reported and whatever
  threshold the request configures, provided the default threshold is not above \<open>1\<close>;
  the peer's code is in the result map only.
\<close>

theorem execute_single_peer:
  assumes "reaches_aggregation cfg env requestID req subgroup [P]"
    and "consensusAlgo cfg env req \<noteq> PBFT"
    and "gatherExecutionResults env requestID [P] = [(P, res)]"
    and "\<not> f64_lt (Finite 1) (defaultExecutionThreshold K)"
  shows "ret_code (execute K cfg env requestID req subgroup) = OK
       \<and> ret_results (execute K cfg env requestID req subgroup) = [(P, res)]
       \<and> ret_err (execute K cfg env requestID req subgroup) = None"
  using assms(2,3) determineThreshold_le_one[OF assms(4), of req]
  by (simp add: execute_aggregates[OF assms(1)] aggregate_def score_def f64_len_quot_Suc_1_1 Let_def)

theorem execute_single_peer_witness:
  "ret_code (execute consts_half \<lparr> DefaultConsensus = NoConsensus \<rparr>
      (fixed_env [''p1''] [(''p1'', \<lparr> Code = Timeout, Output = [] \<rparr>)])
      ''req-1'' (request_of [] (Finite 1)) ''topic'') = OK
   \<and> ret_results (execute consts_half \<lparr> DefaultConsensus = NoConsensus \<rparr>
      (fixed_env [''p1''] [(''p1'', \<lparr> Code = Timeout, Output = [] \<rparr>)])
      ''req-1'' (request_of [] (Finite 1)) ''topic'') = [(''p1'', \<lparr> Code = Timeout, Output = [] \<rparr>)]"
proof -
  let ?rs = "[(''p1'', \<lparr> Code = Timeout, Output = [] \<rparr>)]"
  have g: "gatherExecutionResults (fixed_env [''p1''] ?rs) ''req-1'' [''p1''] = ?rs"
    by (simp add: fixed_env_def)
  have a: "consensusAlgo \<lparr> DefaultConsensus = NoConsensus \<rparr> (fixed_env [''p1''] ?rs)
             (request_of [] (Finite 1)) \<noteq> PBFT"
    by (simp add: algo_fixed_none)
  have d: "\<not> f64_lt (Finite 1) (defaultExecutionThreshold consts_half)"
    by (simp add: consts_half_def)
  show ?thesis
    using execute_single_peer[OF reaches_fixed a g d] by simp
qed

text \<open>
  C2 as stated fails: the single peer reports code \<open>Error\<close>, and the overall code
  is \<open>OK\<close>.
\<close>

theorem execute_single_peer_counterexample:
  "ret_code (execute consts_half \<lparr> DefaultConsensus = NoConsensus \<rparr>
      (fixed_env [''p1''] [(''p1'', \<lparr> Code = Error, Output = ''exit 1'' \<rparr>)])
      ''req-1'' (request_of [] (Finite (1 / 2))) ''topic'') = OK
   \<and> Code (snd (hd (ret_results (execute consts_half \<lparr> DefaultConsensus = NoConsensus \<rparr>
      (fixed_env [''p1''] [(''p1'', \<lparr> Code = Error, Output = ''exit 1'' \<rparr>)])
      ''req-1'' (request_of [] (Finite (1 / 2))) ''topic'')))) = Error"
  by (simp add: execute_def execute_phases_def dispatch_def aggregate_def score_def
        f64_len_quot_Suc_1_1 f64_len_quot_Suc_2_2 determineThreshold_def f64_gt_def f64_le_def nodeCount_def
        consensusAlgo_def fixed_env_def request_of_def consts_half_def consensusRequired_def
        parseConsensusAlgorithm_def Let_def)

subsection \<open>The consensus string\<close>

text \<open>
  C3, as the code has it. With \<open>parseConsensusAlgorithm\<close> as the parser, a consensus
  string is read without regard to case: the empty string is no consensus, a string
  that lowers to \<open>raft\<close> is Raft, one that lowers to \<open>pbft\<close> is PBFT, and every
  other string is a parse error. The head does not return that error: \<open>execute\<close>
  carries on with the configured default consensus.
\<close>

theorem consensus_string_handling:
  assumes "consensus_Parse env = parseConsensusAlgorithm"
    and "ConsensusAlgorithm (Config req) = v"
  shows "(parseConsensusAlgorithm v = Inr NoConsensus) = (v = [])
       \<and> (parseConsensusAlgorithm v = Inr Raft) = (strings_ToLower v = ''raft'')
       \<and> (parseConsensusAlgorithm v = Inr PBFT) = (strings_ToLower v = ''pbft'')
       \<and> (parseConsensusAlgorithm v
            = Inl (ErrorString (''unknown consensus value ('' @ v @ '')'')))
          = (v \<noteq> [] \<and> strings_ToLower v \<noteq> ''raft'' \<and> strings_ToLower v \<noteq> ''pbft'')
       \<and> execute K cfg env requestID req subgroup =
           execute_phases K env requestID req subgroup (nodeCount req)
             (if v = [] then NoConsensus
              else if strings_ToLower v = ''raft'' then Raft
              else if strings_ToLower v = ''pbft'' then PBFT
              else DefaultConsensus cfg)"
proof -
  have "consensusAlgo cfg env req =
          (if v = [] then NoConsensus
           else if strings_ToLower v = ''raft'' then Raft
           else if strings_ToLower v = ''pbft'' then PBFT
           else DefaultConsensus cfg)"
    using assms by (simp add: consensusAlgo_def parseConsensusAlgorithm_def Let_def)
  then show ?thesis
    by (auto simp: execute_def parse_Inr_iff parse_Inl_iff strings_ToLower_Nil)
qed

theorem consensus_string_handling_witness:
  "parseConsensusAlgorithm ''RaFt'' = Inr Raft
   \<and> parseConsensusAlgorithm ''PBFT'' = Inr PBFT
   \<and> parseConsensusAlgorithm ''paxos'' = Inl (ErrorString ''unknown consensus value (paxos)'')
   \<and> execute consts_half \<lparr> DefaultConsensus = PBFT \<rparr> (fixed_env [''p1''] []) ''req-1''
        (request_of ''paxos'' (Finite 0)) ''topic''
      = execute_phases consts_half (fixed_env [''p1''] []) ''req-1''
          (request_of ''paxos'' (Finite 0)) ''topic'' (- 1) PBFT"
proof -
  let ?env = "fixed_env [''p1''] []"
  have p: "consensus_Parse ?env = parseConsensusAlgorithm"
    by (simp add: fixed_env_def)
  have c1: "ConsensusAlgorithm (Config (request_of ''RaFt'' (Finite 0))) = ''RaFt''"
    and c2: "ConsensusAlgorithm (Config (request_of ''paxos'' (Finite 0))) = ''paxos''"
    and c3: "ConsensusAlgorithm (Config (request_of ''PBFT'' (Finite 0))) = ''PBFT''"
    by (simp_all add: request_of_def)
  have n: "nodeCount (request_of ''paxos'' (Finite 0)) = - 1"
    by (simp add: nodeCount_def request_of_def)
  show ?thesis
    using consensus_string_handling[OF p c1] consensus_string_handling[OF p c3]
      consensus_string_handling[OF p c2, where K = consts_half
        and cfg = "\<lparr> DefaultConsensus = PBFT \<rparr>" and requestID = "''req-1''"
        and subgroup = "''topic''"]
    by (simp add: lower_RaFt lower_PBFT lower_paxos n)
qed

text \<open>
  C3 as stated fails: the string \<open>paxos\<close> does not parse, and the execution
  returns code \<open>OK\<close> and no error.
\<close>

theorem invalid_consensus_counterexample:
  "parseConsensusAlgorithm ''paxos'' = Inl (ErrorString ''unknown consensus value (paxos)'')
   \<and> ret_err (execute consts_half \<lparr> DefaultConsensus = NoConsensus \<rparr>
        (fixed_env [''p1''] [(''p1'', \<lparr> Code = OK, Output = ''hi'' \<rparr>)]) ''req-1''
        (request_of ''paxos'' (Finite 0)) ''topic'') = None
   \<and> ret_code (execute consts_half \<lparr> DefaultConsensus = NoConsensus \<rparr>
        (fixed_env [''p1''] [(''p1'', \<lparr> Code = OK, Output = ''hi'' \<rparr>)]) ''req-1''
        (request_of ''paxos'' (Finite 0)) ''topic'') = OK"
  by (simp add: execute_def execute_phases_def dispatch_def aggregate_def score_def
        f64_len_quot_Suc_1_1 f64_len_quot_Suc_2_2 determineThreshold_def f64_gt_def f64_le_def nodeCount_def
        consensusAlgo_def fixed_env_def request_of_def consts_half_def consensusRequired_def
        parseConsensusAlgorithm_def lower_paxos Let_def)

subsection \<open>The error message of the response\<close>

text \<open>
  C9. When the request is valid and \<open>execute\<close> returns an error, the one response
  handed to \<open>Send\<close> carries the error's text in \<open>ErrorMessage\<close> if the error is, or
  wraps, \<open>ErrRollCallTimeout\<close> or \<open>ErrExecutionNotEnoughNodes\<close>, and an empty
  \<open>ErrorMessage\<close> otherwise; the text is never empty, so the field is set exactly in
  those two cases. The response code is the code \<open>execute\<close> returned.
\<close>

theorem processExecute_ErrorMessage:
  assumes "Valid env req = None"
    and "ret_err (execute K cfg env (newRequestID env) (Request req) (Topic req)) = Some e"
  shows "map (exr_ErrorMessage \<circ> snd) (fst (processExecute K cfg env sender req)) =
           [if errors_Is e ErrRollCallTimeout \<or> errors_Is e ErrExecutionNotEnoughNodes
            then err_Error K e else []]
       \<and> err_Error K e \<noteq> []
       \<and> map (exr_Code \<circ> snd) (fst (processExecute K cfg env sender req)) =
           [ret_code (execute K cfg env (newRequestID env) (Request req) (Topic req))]"
proof -
  obtain p e' where "e = WrapError p e'" "p \<noteq> []"
    using execute_err_wrapped[OF assms(2)] by blast
  then have "err_Error K e \<noteq> []" by simp
  then show ?thesis
    using assms by (simp add: processExecute_def Let_def)
qed

theorem processExecute_ErrorMessage_witness:
  "map (exr_ErrorMessage \<circ> snd) (fst (processExecute consts_half \<lparr> DefaultConsensus = NoConsensus \<rparr>
      ((fixed_env [] [])\<lparr> executeRollCall := (\<lambda>requestID req n c subgroup. Inl ErrRollCallTimeout) \<rparr>)
      ''client'' \<lparr> Request = request_of [] (Finite 0), Topic = ''topic'' \<rparr>))
     = [''could not roll call peers (request: req-1): roll call timed out'']
   \<and> map (exr_Code \<circ> snd) (fst (processExecute consts_half \<lparr> DefaultConsensus = NoConsensus \<rparr>
      ((fixed_env [] [])\<lparr> executeRollCall := (\<lambda>requestID req n c subgroup. Inl ErrRollCallTimeout) \<rparr>)
      ''client'' \<lparr> Request = request_of [] (Finite 0), Topic = ''topic'' \<rparr>)) = [Timeout]
   \<and> map (exr_ErrorMessage \<circ> snd) (fst (processExecute consts_half \<lparr> DefaultConsensus = NoConsensus \<rparr>
      ((fixed_env [''p1''] [])\<lparr> formCluster := (\<lambda>requestID ps c. Some (ErrorString ''peer refused'')) \<rparr>)
      ''client'' \<lparr> Request = request_of ''raft'' (Finite 0), Topic = ''topic'' \<rparr>)) = [[]]
   \<and> map (exr_Code \<circ> snd) (fst (processExecute consts_half \<lparr> DefaultConsensus = NoConsensus \<rparr>
      ((fixed_env [''p1''] [])\<lparr> formCluster := (\<lambda>requestID ps c. Some (ErrorString ''peer refused'')) \<rparr>)
      ''client'' \<lparr> Request = request_of ''raft'' (Finite 0), Topic = ''topic'' \<rparr>)) = [Error]"
proof -
  let ?cfg = "\<lparr> DefaultConsensus = NoConsensus \<rparr>"
  let ?env1 = "(fixed_env [] [])\<lparr> executeRollCall := (\<lambda>requestID req n c subgroup. Inl ErrRollCallTimeout) \<rparr>"
  let ?req1 = "\<lparr> Request = request_of [] (Finite 0), Topic = ''topic'' \<rparr>"
  let ?env2 = "(fixed_env [''p1''] [])\<lparr> formCluster := (\<lambda>requestID ps c. Some (ErrorString ''peer refused'')) \<rparr>"
  let ?req2 = "\<lparr> Request = request_of ''raft'' (Finite 0), Topic = ''topic'' \<rparr>"
  have v1: "Valid ?env1 ?req1 = None" and v2: "Valid ?env2 ?req2 = None"
    by (simp_all add: fixed_env_def)
  have n1: "newRequestID ?env1 = ''req-1''" and n2: "newRequestID ?env2 = ''req-1''"
    by (simp_all add: fixed_env_def)
  have e1: "\<And>K. execute K ?cfg ?env1 ''req-1'' (request_of [] (Finite 0)) ''topic'' =
              \<lparr> ret_code = Timeout, ret_results = [], ret_cluster = \<lparr> Peers = [] \<rparr>,
                ret_err = Some (WrapError ''could not roll call peers (request: req-1): '' ErrRollCallTimeout),
                disbanded = False \<rparr>"
    by (simp add: execute_def execute_phases_def fixed_env_def)
  have e2: "\<And>K. execute K ?cfg ?env2 ''req-1'' (request_of ''raft'' (Finite 0)) ''topic'' =
              \<lparr> ret_code = Error, ret_results = [], ret_cluster = \<lparr> Peers = [] \<rparr>,
                ret_err = Some (WrapError ''could not form cluster (request: req-1): '' (ErrorString ''peer refused'')),
                disbanded = False \<rparr>"
    by (simp add: execute_def execute_phases_def fixed_env_def consensusAlgo_def request_of_def
          parseConsensusAlgorithm_def strings_ToLower_def asciiLower_def consensusRequired_def)
  have r1: "ret_err (execute consts_half ?cfg ?env1 (newRequestID ?env1) (Request ?req1) (Topic ?req1))
              = Some (WrapError ''could not roll call peers (request: req-1): '' ErrRollCallTimeout)"
    by (simp add: e1 n1)
  have r2: "ret_err (execute consts_half ?cfg ?env2 (newRequestID ?env2) (Request ?req2) (Topic ?req2))
              = Some (WrapError ''could not form cluster (request: req-1): '' (ErrorString ''peer refused''))"
    by (simp add: e2 n2)
  show ?thesis
    using processExecute_ErrorMessage[OF v1 r1, of "''client''"]
      processExecute_ErrorMessage[OF v2 r2, of "''client''"]
    by (simp add: e1 e2 n1 n2 consts_half_def)
qed

subsection \<open>Keys of the wait-maps\<close>

text \<open>
  C6, as the code has it. The head stores an inbound work order response under
  \<open>request_id + "/" + peer_id\<close>, the peer being the sender. The worker's cache
  callbacks, for Raft and for PBFT, store a committed result under the request ID alone.
  Nothing keeps a key from being written again: a second response of the same peer for
  the same request writes the same key once more, and a reader then gets the later value.
\<close>

theorem waitmap_keys_written:
  "map fst (processWorkOrderResponse wm sender res)
     = (wor_RequestID res @ ''/'' @ sender) # map fst wm
   \<and> is_result_key (wor_RequestID res) (fst (hd (processWorkOrderResponse wm sender res)))
   \<and> map fst (executeResponses (raft_cacheFn w req r))
     = fsm_RequestID req # map fst (executeResponses w)
   \<and> map fst (executeResponses (pbft_cacheFn fc w requestID origin ereq r))
     = fc_RequestID fc # map fst (executeResponses w)
   \<and> map fst (processWorkOrderResponse (processWorkOrderResponse wm sender res) sender
        (res\<lparr> wor_Result := r' \<rparr>))
     = [wor_RequestID res @ ''/'' @ sender, wor_RequestID res @ ''/'' @ sender] @ map fst wm
   \<and> waitmap_Get (processWorkOrderResponse (processWorkOrderResponse wm sender res) sender
        (res\<lparr> wor_Result := r' \<rparr>)) (executionResultKey (wor_RequestID res) sender) = Some r'"
  by (simp add: processWorkOrderResponse_def waitmap_Set_def waitmap_Get_def raft_cacheFn_def
        pbft_cacheFn_def executionResultKey_def is_result_key_def Let_def)

theorem waitmap_keys_written_witness:
  "map fst (processWorkOrderResponse [] ''p1''
      \<lparr> wor_RequestID = ''req-1'', wor_Code = OK, wor_Result = \<lparr> Code = OK, Output = ''42'' \<rparr> \<rparr>)
     = [''req-1/p1'']
   \<and> map fst (executeResponses (pbft_cacheFn
        \<lparr> fc_RequestID = ''req-1'', fc_Peers = [''p1''], fc_Consensus = PBFT \<rparr>
        \<lparr> clusters = Map.empty, executeResponses = [] \<rparr> ''req-1'' ''head''
        (request_of ''pbft'' (Finite 0)) \<lparr> Code = OK, Output = ''42'' \<rparr>)) = [''req-1'']"
  using waitmap_keys_written[of "[]" "''p1''"
      "\<lparr> wor_RequestID = ''req-1'', wor_Code = OK, wor_Result = \<lparr> Code = OK, Output = ''42'' \<rparr> \<rparr>"
      "\<lparr> clusters = Map.empty, executeResponses = [] \<rparr>" _ _
      "\<lparr> fc_RequestID = ''req-1'', fc_Peers = [''p1''], fc_Consensus = PBFT \<rparr>"
      "''req-1''" "''head''" "request_of ''pbft'' (Finite 0)"]
  by simp

text \<open>
  C6 as stated fails: the Raft cache callback writes the key \<open>req-1\<close>, which is not
  of the form \<open>req-1/<peer>\<close>; and two responses of one peer for one request leave
  the head's key written twice.
\<close>

theorem cache_key_counterexample:
  "map fst (executeResponses (raft_cacheFn \<lparr> clusters = Map.empty, executeResponses = [] \<rparr>
      \<lparr> fsm_RequestID = ''req-1'', fsm_Origin = ''head'' \<rparr> \<lparr> Code = OK, Output = ''42'' \<rparr>))
     = [''req-1'']
   \<and> \<not> is_result_key ''req-1'' ''req-1''
   \<and> \<not> distinct (map fst (processWorkOrderResponse (processWorkOrderResponse [] ''p1''
        \<lparr> wor_RequestID = ''req-1'', wor_Code = OK, wor_Result = \<lparr> Code = OK, Output = ''42'' \<rparr> \<rparr>)
        ''p1''
        \<lparr> wor_RequestID = ''req-1'', wor_Code = OK, wor_Result = \<lparr> Code = OK, Output = ''42'' \<rparr> \<rparr>))"
  by (simp add: raft_cacheFn_def waitmap_Set_def is_result_key_def processWorkOrderResponse_def
        executionResultKey_def Let_def)

subsection \<open>The cluster registry of a worker\<close>

text \<open>
  What \<open>leaveCluster\<close> does to the registry. Afterwards there is no entry for the
  request if there was none before or if the replica's \<open>Shutdown()\<close> succeeded.
  \<open>leaveCluster\<close> returns no error exactly when there was an entry and its shutdown
  succeeded, and whenever it returns an error the worker is left as it was.
\<close>

lemma leaveCluster_registry:
  "clusters (fst (leaveCluster w R)) R =
     (case clusters w R of
        None \<Rightarrow> None
      | Some c \<Rightarrow> (case Shutdown c of None \<Rightarrow> None | Some err \<Rightarrow> Some c))
   \<and> (snd (leaveCluster w R) = None) =
       (case clusters w R of None \<Rightarrow> False | Some c \<Rightarrow> Shutdown c = None)
   \<and> (if snd (leaveCluster w R) = None then clusters (fst (leaveCluster w R)) R = None
       else fst (leaveCluster w R) = w)"
  by (simp add: leaveCluster_def split: option.splits)

lemma leaveCluster_registry_example:
  "clusters (fst (leaveCluster
      \<lparr> clusters = [''req-1'' \<mapsto> \<lparr> Consensus = Raft, Shutdown = None, handle = 7 \<rparr>],
        executeResponses = [] \<rparr> ''req-1'')) ''req-1'' = None
   \<and> snd (leaveCluster
      \<lparr> clusters = [''req-1'' \<mapsto> \<lparr> Consensus = Raft, Shutdown = None, handle = 7 \<rparr>],
        executeResponses = [] \<rparr> ''req-1'') = None
   \<and> snd (leaveCluster \<lparr> clusters = Map.empty, executeResponses = [] \<rparr> ''req-1'') \<noteq> None"
  using leaveCluster_registry[of
      "\<lparr> clusters = [''req-1'' \<mapsto> \<lparr> Consensus = Raft, Shutdown = None, handle = 7 \<rparr>],
         executeResponses = [] \<rparr>" "''req-1''"]
    leaveCluster_registry[of "\<lparr> clusters = Map.empty, executeResponses = [] \<rparr>" "''req-1''"]
  by simp

text \<open>
  C4. After a worker has handled the disbanding of request \<open>R\<close>, its registry should
  hold no entry for \<open>R\<close>, also when the replica's \<open>Shutdown()\<close> returns an error.
  The code returns on that error before it reaches the \<open>Delete\<close> that the successful
  path runs: here \<open>Shutdown()\<close> fails, \<open>leaveCluster\<close> returns the error wrapped,
  and the registry still holds the entry for the request.
\<close>

theorem leaveCluster_shutdown_error_keeps_entry:
  "clusters (fst (leaveCluster
      \<lparr> clusters = [''req-1'' \<mapsto> \<lparr> Consensus = Raft,
            Shutdown = Some (ErrorString ''raft: transport close failed''), handle = 7 \<rparr>],
        executeResponses = [] \<rparr> ''req-1'')) ''req-1''
     = Some \<lparr> Consensus = Raft, Shutdown = Some (ErrorString ''raft: transport close failed''),
              handle = 7 \<rparr>
   \<and> snd (leaveCluster
      \<lparr> clusters = [''req-1'' \<mapsto> \<lparr> Consensus = Raft,
            Shutdown = Some (ErrorString ''raft: transport close failed''), handle = 7 \<rparr>],
        executeResponses = [] \<rparr> ''req-1'')
     = Some (WrapError ''could not leave cluster (request: req-1): ''
              (ErrorString ''raft: transport close failed''))"
  by (simp add: leaveCluster_def)

text \<open>
  C5, as the code has it. Whatever the registry holds, and so also when the request ID
  is already registered: once its replica is constructed, \<open>createRaftCluster\<close> hands
  the new handle to the registry's \<open>Set\<close> and sends the head one answer, with code
  \<open>OK\<close>; in the variant with the locked map the new handle takes the place of the one
  registered before. The same holds of \<open>createPBFTCluster\<close> once its replica is
  constructed. Each function depends on its own constructor only.
\<close>

theorem FormCluster_known_request:
  "(raft_New env (fc_RequestID fc) (fc_Peers fc) = Inr rh \<longrightarrow>
      fst (snd (createRaftCluster env w sender fc)) = [(sender, fc_Response fc OK)]
      \<and> clusters (fst (createRaftCluster env w sender fc))
          = clusters_Set env (clusters w) (fc_RequestID fc) rh
      \<and> fst (snd (createRaftCluster_locked env w sender fc)) = [(sender, fc_Response fc OK)]
      \<and> clusters (fst (createRaftCluster_locked env w sender fc))
          = (clusters w)(fc_RequestID fc \<mapsto> rh))
   \<and> (pbft_NewReplica env (fc_Peers fc) (fc_RequestID fc) = Inr ph \<longrightarrow>
      fst (snd (createPBFTCluster env w sender fc)) = [(sender, fc_Response fc OK)]
      \<and> clusters (fst (createPBFTCluster env w sender fc))
          = clusters_Set env (clusters w) (fc_RequestID fc) ph
      \<and> fst (snd (createPBFTCluster_locked env w sender fc)) = [(sender, fc_Response fc OK)]
      \<and> clusters (fst (createPBFTCluster_locked env w sender fc))
          = (clusters w)(fc_RequestID fc \<mapsto> ph))"
  by (simp add: createRaftCluster_def createPBFTCluster_def createRaftCluster_locked_def
        createPBFTCluster_locked_def Let_def)

theorem FormCluster_known_request_witness:
  "fst (snd (createRaftCluster
      ((worker_fixed_env \<lparr> Consensus = Raft, Shutdown = None, handle = 2 \<rparr>)
         \<lparr> pbft_NewReplica := (\<lambda>peers requestID. Inl (ErrorString ''no pbft'')) \<rparr>)
      \<lparr> clusters = [''req-1'' \<mapsto> \<lparr> Consensus = Raft, Shutdown = None, handle = 1 \<rparr>],
        executeResponses = [] \<rparr> ''head''
      \<lparr> fc_RequestID = ''req-1'', fc_Peers = [''p1'', ''p2''], fc_Consensus = Raft \<rparr>))
     = [(''head'', \<lparr> fcr_RequestID = ''req-1'', fcr_Code = OK, fcr_Consensus = Raft \<rparr>)]
   \<and> clusters (fst (createRaftCluster_locked
      ((worker_fixed_env \<lparr> Consensus = Raft, Shutdown = None, handle = 2 \<rparr>)
         \<lparr> pbft_NewReplica := (\<lambda>peers requestID. Inl (ErrorString ''no pbft'')) \<rparr>)
      \<lparr> clusters = [''req-1'' \<mapsto> \<lparr> Consensus = Raft, Shutdown = None, handle = 1 \<rparr>],
        executeResponses = [] \<rparr> ''head''
      \<lparr> fc_RequestID = ''req-1'', fc_Peers = [''p1'', ''p2''], fc_Consensus = Raft \<rparr>)) ''req-1''
     = Some \<lparr> Consensus = Raft, Shutdown = None, handle = 2 \<rparr>
   \<and> fst (snd (createPBFTCluster
      ((worker_fixed_env \<lparr> Consensus = PBFT, Shutdown = None, handle = 2 \<rparr>)
         \<lparr> raft_New := (\<lambda>requestID peers. Inl (ErrorString ''no raft'')) \<rparr>)
      \<lparr> clusters = [''req-1'' \<mapsto> \<lparr> Consensus = PBFT, Shutdown = None, handle = 1 \<rparr>],
        executeResponses = [] \<rparr> ''head''
      \<lparr> fc_RequestID = ''req-1'', fc_Peers = [''p1'', ''p2''], fc_Consensus = PBFT \<rparr>))
     = [(''head'', \<lparr> fcr_RequestID = ''req-1'', fcr_Code = OK, fcr_Consensus = PBFT \<rparr>)]
   \<and> clusters (fst (createPBFTCluster_locked
      ((worker_fixed_env \<lparr> Consensus = PBFT, Shutdown = None, handle = 2 \<rparr>)
         \<lparr> raft_New := (\<lambda>requestID peers. Inl (ErrorString ''no raft'')) \<rparr>)
      \<lparr> clusters = [''req-1'' \<mapsto> \<lparr> Consensus = PBFT, Shutdown = None, handle = 1 \<rparr>],
        executeResponses = [] \<rparr> ''head''
      \<lparr> fc_RequestID = ''req-1'', fc_Peers = [''p1'', ''p2''], fc_Consensus = PBFT \<rparr>)) ''req-1''
     = Some \<lparr> Consensus = PBFT, Shutdown = None, handle = 2 \<rparr>"
proof -
  let ?hr = "\<lparr> Consensus = Raft, Shutdown = None, handle = 2 \<rparr>"
  let ?hp = "\<lparr> Consensus = PBFT, Shutdown = None, handle = 2 \<rparr>"
  let ?envr = "(worker_fixed_env ?hr)
      \<lparr> pbft_NewReplica := (\<lambda>peers requestID. Inl (ErrorString ''no pbft'')) \<rparr>"
  let ?envp = "(worker_fixed_env ?hp)
      \<lparr> raft_New := (\<lambda>requestID peers. Inl (ErrorString ''no raft'')) \<rparr>"
  let ?fcr = "\<lparr> fc_RequestID = ''req-1'', fc_Peers = [''p1'', ''p2''], fc_Consensus = Raft \<rparr>"
  let ?fcp = "\<lparr> fc_RequestID = ''req-1'', fc_Peers = [''p1'', ''p2''], fc_Consensus = PBFT \<rparr>"
  have r: "raft_New ?envr (fc_RequestID ?fcr) (fc_Peers ?fcr) = Inr ?hr"
    and p: "pbft_NewReplica ?envp (fc_Peers ?fcp) (fc_RequestID ?fcp) = Inr ?hp"
    by (simp_all add: worker_fixed_env_def)
  show ?thesis
    using FormCluster_known_request[of ?envr ?fcr ?hr
        "\<lparr> clusters = [''req-1'' \<mapsto> \<lparr> Consensus = Raft, Shutdown = None, handle = 1 \<rparr>],
           executeResponses = [] \<rparr>" "''head''"] r
      FormCluster_known_request[of ?envp ?fcp _
        "\<lparr> clusters = [''req-1'' \<mapsto> \<lparr> Consensus = PBFT, Shutdown = None, handle = 1 \<rparr>],
           executeResponses = [] \<rparr>" "''head''" ?hp] p
    by (simp add: fc_Response_def)
qed

text \<open>
  C5 as stated fails: the request ID is registered with handle 1, a second
  \<open>FormCluster\<close> for it constructs handle 2, and the worker answers \<open>OK\<close> with no
  error, even with a registry whose \<open>Set\<close> keeps the first handle; in the variant
  with the locked map handle 2 has replaced handle 1.
\<close>

theorem FormCluster_duplicate_counterexample:
  "fst (snd (createRaftCluster (worker_fixed_env \<lparr> Consensus = Raft, Shutdown = None, handle = 2 \<rparr>)
      \<lparr> clusters = [''req-1'' \<mapsto> \<lparr> Consensus = Raft, Shutdown = None, handle = 1 \<rparr>],
        executeResponses = [] \<rparr> ''head''
      \<lparr> fc_RequestID = ''req-1'', fc_Peers = [''p1'', ''p2''], fc_Consensus = Raft \<rparr>))
     = [(''head'', \<lparr> fcr_RequestID = ''req-1'', fcr_Code = OK, fcr_Consensus = Raft \<rparr>)]
   \<and> snd (snd (createRaftCluster (worker_fixed_env \<lparr> Consensus = Raft, Shutdown = None, handle = 2 \<rparr>)
      \<lparr> clusters = [''req-1'' \<mapsto> \<lparr> Consensus = Raft, Shutdown = None, handle = 1 \<rparr>],
        executeResponses = [] \<rparr> ''head''
      \<lparr> fc_RequestID = ''req-1'', fc_Peers = [''p1'', ''p2''], fc_Consensus = Raft \<rparr>)) = None
   \<and> clusters (fst (createRaftCluster_locked (worker_fixed_env \<lparr> Consensus = Raft, Shutdown = None, handle = 2 \<rparr>)
      \<lparr> clusters = [''req-1'' \<mapsto> \<lparr> Consensus = Raft, Shutdown = None, handle = 1 \<rparr>],
        executeResponses = [] \<rparr> ''head''
      \<lparr> fc_RequestID = ''req-1'', fc_Peers = [''p1'', ''p2''], fc_Consensus = Raft \<rparr>)) ''req-1''
     = Some \<lparr> Consensus = Raft, Shutdown = None, handle = 2 \<rparr>"
  by (simp add: createRaftCluster_def createRaftCluster_locked_def worker_fixed_env_def
        fc_Response_def Let_def)

end
